theory Spec2Isabelle
  imports Complex_Main "HOL-Library.Sublist"
begin

section \<open>JavaScript values\<close>

text \<open>
  A JavaScript string is a sequence of UTF-16 code units, here natural numbers.
  \<open>js\<close> turns an ASCII literal into one.
\<close>

type_synonym jsstring = "nat list"

definition js :: "string \<Rightarrow> jsstring" where
  "js cs = map of_char cs"

text \<open>
  A number is a double. No arithmetic is done on numbers by the script: only their
  truthiness is read, and both zeros are \<open>Finite 0\<close>.
\<close>

datatype jsnum = NaN | Infinity bool | Finite rat

datatype jsval =
    JUndefined
  | JNull
  | JBool bool
  | JNum jsnum
  | JStr jsstring
  | JArr "jsval list"
  | JObj "(jsstring \<times> jsval) list"

text \<open>\<open>!v\<close> is true for exactly the falsy values.\<close>

fun falsy :: "jsval \<Rightarrow> bool" where
  "falsy JUndefined = True"
| "falsy JNull = True"
| "falsy (JBool b) = (\<not> b)"
| "falsy (JNum n) = (n = NaN \<or> n = Finite 0)"
| "falsy (JStr s) = (s = [])"
| "falsy (JArr xs) = False"
| "falsy (JObj kvs) = False"

text \<open>\<open>a || b\<close>\<close>

definition js_or :: "jsval \<Rightarrow> jsval \<Rightarrow> jsval" where
  "js_or a b = (if falsy a then b else a)"

text \<open>
  \<open>v?.name\<close> for a property name that is neither an array index nor defined by a
  prototype (\<open>choices\<close>, \<open>message\<close>, \<open>content\<close>): only an object can have it.
\<close>

fun opt_prop :: "jsval \<Rightarrow> jsstring \<Rightarrow> jsval" where
  "opt_prop (JObj kvs) k = (case map_of kvs k of None \<Rightarrow> JUndefined | Some v \<Rightarrow> v)"
| "opt_prop v k = JUndefined"

text \<open>\<open>v?.[0]\<close>: the first element of an array, the first code unit of a string, the
  property \<open>"0"\<close> of an object.\<close>

fun opt_index0 :: "jsval \<Rightarrow> jsval" where
  "opt_index0 (JArr xs) = (case xs of [] \<Rightarrow> JUndefined | x # _ \<Rightarrow> x)"
| "opt_index0 (JStr s) = (case s of [] \<Rightarrow> JUndefined | c # _ \<Rightarrow> JStr [c])"
| "opt_index0 (JObj kvs) = (case map_of kvs (js ''0'') of None \<Rightarrow> JUndefined | Some v \<Rightarrow> v)"
| "opt_index0 v = JUndefined"

text \<open>\<open>String(n)\<close> for a non-negative integer: its decimal digits.\<close>

fun show_nat :: "nat \<Rightarrow> jsstring" where
  "show_nat n = (if n < 10 then [48 + n] else show_nat (n div 10) @ [48 + n mod 10])"

declare show_nat.simps [simp del]

text \<open>
  \<open>String.prototype.trim\<close> removes the WhiteSpace and LineTerminator code units of
  ECMAScript from both ends.
\<close>

definition is_ws :: "nat \<Rightarrow> bool" where
  "is_ws c =
     (c \<in> set [9, 10, 11, 12, 13, 32, 160, 5760]
      \<or> (8192 \<le> c \<and> c \<le> 8202)
      \<or> c \<in> set [8232, 8233, 8239, 8287, 12288, 65279])"

definition trim :: "jsstring \<Rightarrow> jsstring" where
  "trim s = rev (dropWhile is_ws (rev (dropWhile is_ws s)))"

section \<open>The page\<close>

datatype role = System | User | Assistant

record message =
  role :: role
  content :: jsval

text \<open>
  A bubble of the chat window: a \<open>div\<close> with its class list and the \<open>innerText\<close> given
  to its two spans (\<open>.msg-label\<close> and \<open>.msg-text\<close>). \<open>el_id\<close> is the identity of the
  node, which \<open>typingEl.remove()\<close> needs. \<open>msg_text\<close> is the value assigned to
  \<open>innerText\<close>; the browser stores its string conversion, the string itself for a string.
\<close>

record element =
  el_id :: nat
  classList :: "jsstring list"
  msg_label :: jsstring
  msg_text :: jsval

record input =
  input_value :: jsstring
  focused :: bool

record request_body =
  model :: jsstring
  body_messages :: "message list"

text \<open>The argument of \<open>fetch\<close>; the body is kept as the object given to
  \<open>JSON.stringify\<close>.\<close>

record request =
  url :: jsstring
  http_method :: jsstring
  headers :: "(jsstring \<times> jsstring) list"
  body :: request_body

text \<open>
  What the network gives back: \<open>fetch\<close> rejects with an error (its message), or resolves
  to a response with a status, and with what \<open>resp.text()\<close> and \<open>resp.json()\<close> settle
  to (\<open>Inl\<close> the message of the error they reject with).
\<close>

record response =
  resp_status :: nat
  resp_text :: "jsstring + jsstring"
  resp_json :: "jsstring + jsval"

datatype fetch_result = Rejected jsstring | Responded response

text \<open>\<open>resp.ok\<close>\<close>

definition ok :: "response \<Rightarrow> bool" where
  "ok r = (200 \<le> resp_status r \<and> resp_status r \<le> 299)"

datatype log_entry = LogInfo jsstring jsstring | LogError jsstring

text \<open>
  The module's variables (\<open>messages\<close>, \<open>apiKey\<close>), the four elements looked up at load
  (\<open>None\<close> or \<open>False\<close> when \<open>querySelector\<close> gave \<open>null\<close>; \<open>sendBtn\<close> holds
  its \<open>disabled\<close> flag, \<open>chatContainer\<close> its children), and the host's side: the next
  node identity, the callbacks scheduled with \<open>setTimeout\<close>, the console, every request
  given to \<open>fetch\<close>, and the \<open>handleSend\<close> calls suspended at their \<open>await\<close>, each
  named by the identity of its \<open>typingEl\<close>. Layout (\<open>scrollTop\<close>) is left out, and
  a timer is kept without its delay: it fires at some later event.
\<close>

record state =
  messages :: "message list"
  apiKey :: jsval
  chatForm :: bool
  userInput :: "input option"
  sendBtn :: "bool option"
  chatContainer :: "element list option"
  nextId :: nat
  timers :: "nat list"
  console :: "log_entry list"
  fetched :: "request list"
  pending :: "nat list"

section \<open>The script\<close>

definition Loreal :: jsstring where
  "Loreal = js ''L'' @ [8217] @ js ''Or'' @ [233] @ js ''al''"

definition seed :: message where
  "seed = \<lparr>role = System, content = JStr (
     js ''You are a helpful assistant specialized in '' @ Loreal @
     js '' products, skincare and beauty routines, and related recommendations. Politely refuse to answer questions that are unrelated to '' @ Loreal @
     js '' products, beauty, skincare, cosmetics, haircare, or routine recommendations. When refusing, respond briefly and offer to help with '' @ Loreal @
     js ''-specific or beauty-related questions instead.'')\<rparr>"

text \<open>The three globals that \<open>secrets.js\<close> may set (\<open>JUndefined\<close> when it does not).\<close>

record window =
  OPENAI_API_KEY :: jsval
  API_KEY :: jsval
  OPENAI_KEY :: jsval

definition read_apiKey :: "window \<Rightarrow> jsval" where
  "read_apiKey w = js_or (js_or (js_or (OPENAI_API_KEY w) (API_KEY w)) (OPENAI_KEY w)) (JStr [])"

text \<open>\<open>classList.add\<close> and \<open>classList.remove\<close>\<close>

definition classList_add :: "jsstring list \<Rightarrow> jsstring list \<Rightarrow> jsstring list" where
  "classList_add new cs = fold (\<lambda>c acc. if c \<in> set acc then acc else acc @ [c]) new cs"

definition classList_remove :: "jsstring \<Rightarrow> jsstring list \<Rightarrow> jsstring list" where
  "classList_remove c cs = filter (\<lambda>x. x \<noteq> c) cs"

text \<open>The \<open>div\<close> that \<open>addMessage\<close> builds, before it is attached.\<close>

definition msgEl :: "nat \<Rightarrow> role \<Rightarrow> jsval \<Rightarrow> element" where
  "msgEl i r txt =
     \<lparr>el_id = i,
      classList = classList_add (if r = User then [js ''user''] else [js ''ai''])
                    (classList_add [js ''chat-message'', js ''msg''] []),
      msg_label = (if r = User then js ''User: '' else js ''Assistant: ''),
      msg_text = txt\<rparr>"

definition addMessage :: "role \<Rightarrow> jsval \<Rightarrow> state \<Rightarrow> state" where
  "addMessage r txt s =
     (let el = msgEl (nextId s) r txt;
          s1 = s\<lparr>nextId := Suc (nextId s)\<rparr>
      in case chatContainer s1 of
           None \<Rightarrow> s1
         | Some kids \<Rightarrow>
             s1\<lparr>chatContainer :=
                   Some (kids @ [el\<lparr>classList := classList_add [js ''new''] (classList el)\<rparr>]),
                 timers := timers s1 @ [el_id el]\<rparr>)"

definition WORKER_URL :: jsstring where
  "WORKER_URL = js ''https://loreal-worker.mtrigui.workers.dev/''"

text \<open>\<open>getChatCompletion\<close> up to its first \<open>await\<close>: the log line and the call of
  \<open>fetch\<close>.\<close>

definition getChatCompletion_request :: "message list \<Rightarrow> request" where
  "getChatCompletion_request convMessages =
     \<lparr>url = WORKER_URL,
      http_method = js ''POST'',
      headers = [(js ''Content-Type'', js ''application/json'')],
      body = \<lparr>model = js ''gpt-4o'', body_messages = convMessages\<rparr>\<rparr>"

definition getChatCompletion_fetch :: "message list \<Rightarrow> state \<Rightarrow> state" where
  "getChatCompletion_fetch convMessages s =
     s\<lparr>console := console s @ [LogInfo (js ''POSTing chat completion request to worker:'') WORKER_URL],
       fetched := fetched s @ [getChatCompletion_request convMessages]\<rparr>"

text \<open>\<open>getChatCompletion\<close> from the settlement of \<open>fetch\<close> on: \<open>Inl\<close> the message of
  the error thrown, \<open>Inr\<close> the value returned.\<close>

definition reply_of :: "jsval \<Rightarrow> jsval" where
  "reply_of data =
     opt_prop (opt_prop (opt_index0 (opt_prop data (js ''choices''))) (js ''message'')) (js ''content'')"

definition getChatCompletion_settle :: "fetch_result \<Rightarrow> jsstring + jsval" where
  "getChatCompletion_settle fr =
     (case fr of
        Rejected msg \<Rightarrow> Inl msg
      | Responded resp \<Rightarrow>
          if \<not> ok resp then
            (case resp_text resp of
               Inl msg \<Rightarrow> Inl msg
             | Inr errText \<Rightarrow>
                 Inl (js ''API request failed: '' @ show_nat (resp_status resp) @ js '' '' @ errText))
          else
            (case resp_json resp of
               Inl msg \<Rightarrow> Inl msg
             | Inr data \<Rightarrow>
                 let assistantContent = reply_of data in
                 if falsy assistantContent
                 then Inl (js ''No assistant message found in API response.'')
                 else Inr assistantContent))"

text \<open>How a call of \<open>handleSend\<close> leaves the event loop: it returned, it threw a
  \<open>TypeError\<close> on a \<open>null\<close> element, or it is suspended at its \<open>await\<close>.\<close>

datatype completion = Returned | Threw | Suspended nat

definition typing_element :: "nat \<Rightarrow> element" where
  "typing_element i =
     \<lparr>el_id = i,
      classList = classList_add [js ''chat-message'', js ''msg'', js ''ai'', js ''typing''] [],
      msg_label = js ''Assistant: '',
      msg_text = JStr (js ''...'')\<rparr>"

text \<open>\<open>handleSend\<close> up to the \<open>await\<close>. \<open>event.preventDefault()\<close> acts on the event
  object only, which is not part of the state.\<close>

definition handleSend :: "state \<Rightarrow> completion \<times> state" where
  "handleSend s =
     (case userInput s of
        None \<Rightarrow> (Returned, s)
      | Some inp \<Rightarrow>
          let txt = trim (input_value inp) in
          if txt = [] then (Returned, s)
          else
            let s1 = addMessage User (JStr txt) s;
                s2 = s1\<lparr>messages := messages s1 @ [\<lparr>role = User, content = JStr txt\<rparr>]\<rparr>;
                s3 = s2\<lparr>userInput := Some (inp\<lparr>input_value := []\<rparr>)\<rparr>
            in case sendBtn s3 of
                 None \<Rightarrow> (Threw, s3)
               | Some d \<Rightarrow>
                   let s4 = s3\<lparr>sendBtn := Some True\<rparr>;
                       typingEl = typing_element (nextId s4);
                       s5 = s4\<lparr>nextId := Suc (nextId s4)\<rparr>
                   in case chatContainer s5 of
                        None \<Rightarrow> (Threw, s5)
                      | Some kids \<Rightarrow>
                          let s6 = s5\<lparr>chatContainer := Some (kids @ [typingEl])\<rparr>;
                              s7 = getChatCompletion_fetch (messages s6) s6
                          in (Suspended (el_id typingEl),
                              s7\<lparr>pending := pending s7 @ [el_id typingEl]\<rparr>))"

text \<open>\<open>typingEl.remove()\<close>\<close>

definition remove_element :: "nat \<Rightarrow> state \<Rightarrow> state" where
  "remove_element i s =
     s\<lparr>chatContainer := map_option (filter (\<lambda>e. el_id e \<noteq> i)) (chatContainer s)\<rparr>"

text \<open>\<open>handleSend\<close> from the settlement of \<open>getChatCompletion\<close> on: the rest of the
  \<open>try\<close> block or the \<open>catch\<close> block, then the \<open>finally\<close> block.\<close>

definition handleSend_resume :: "nat \<Rightarrow> fetch_result \<Rightarrow> state \<Rightarrow> completion \<times> state" where
  "handleSend_resume typingEl fr s =
     (let s1 = (case getChatCompletion_settle fr of
                  Inr reply \<Rightarrow>
                    let a = addMessage Assistant reply (remove_element typingEl s)
                    in a\<lparr>messages := messages a @ [\<lparr>role = Assistant, content = reply\<rparr>]\<rparr>
                | Inl msg \<Rightarrow>
                    let a = addMessage Assistant (JStr (js ''Error: '' @ msg)) (remove_element typingEl s)
                    in a\<lparr>console := console a @ [LogError msg]\<rparr>)
      in case sendBtn s1 of
           None \<Rightarrow> (Threw, s1)
         | Some d \<Rightarrow>
             let s2 = s1\<lparr>sendBtn := Some False\<rparr>
             in case userInput s2 of
                  None \<Rightarrow> (Threw, s2)
                | Some inp \<Rightarrow> (Returned, s2\<lparr>userInput := Some (inp\<lparr>focused := True\<rparr>)\<rparr>))"

section \<open>The session\<close>

text \<open>
  What can happen on the page: the user edits the input field, the form is submitted, the
  button is clicked, a key goes down in the input field (the key and \<open>shiftKey\<close>), the
  call of a suspended \<open>handleSend\<close> settles, a timer fires. The listeners are those that
  the script registers: \<open>submit\<close> on the form if there is one, else \<open>click\<close> on the
  button if there is one, and \<open>keydown\<close> on the input field if there is one. Each
  suspended \<open>handleSend\<close> changes the state in two steps only, up to its \<open>await\<close>
  and from the settlement on, so other events fall between these two steps. Nothing is
  assumed about which \<open>submit\<close> or \<open>click\<close> events a browser withholds while the
  button is disabled: every event may come at any time.
\<close>

datatype event =
    Edit jsstring
  | Submit
  | Click
  | Keydown jsstring bool
  | Settle nat fetch_result
  | Timeout nat

definition timeout_new :: "nat \<Rightarrow> state \<Rightarrow> state" where
  "timeout_new i s =
     s\<lparr>chatContainer :=
         map_option (map (\<lambda>e. if el_id e = i
                               then e\<lparr>classList := classList_remove (js ''new'') (classList e)\<rparr>
                               else e))
           (chatContainer s),
       timers := remove1 i (timers s)\<rparr>"

definition dispatch :: "event \<Rightarrow> state \<Rightarrow> state" where
  "dispatch ev s =
     (case ev of
        Edit v \<Rightarrow>
          (case userInput s of
             None \<Rightarrow> s
           | Some inp \<Rightarrow> s\<lparr>userInput := Some (inp\<lparr>input_value := v\<rparr>)\<rparr>)
      | Submit \<Rightarrow> if chatForm s then snd (handleSend s) else s
      | Click \<Rightarrow> if \<not> chatForm s \<and> sendBtn s \<noteq> None then snd (handleSend s) else s
      | Keydown k shiftKey \<Rightarrow>
          if userInput s \<noteq> None \<and> k = js ''Enter'' \<and> \<not> shiftKey then snd (handleSend s) else s
      | Settle i fr \<Rightarrow>
          if i \<in> set (pending s)
          then snd (handleSend_resume i fr (s\<lparr>pending := remove1 i (pending s)\<rparr>))
          else s
      | Timeout i \<Rightarrow> if i \<in> set (timers s) then timeout_new i s else s)"

fun run :: "event list \<Rightarrow> state \<Rightarrow> state" where
  "run [] s = s"
| "run (ev # evs) s = run evs (dispatch ev s)"

text \<open>The state when the script has loaded, on a page with the given elements.\<close>

definition init :: "window \<Rightarrow> bool \<Rightarrow> input option \<Rightarrow> bool option \<Rightarrow> bool \<Rightarrow> state" where
  "init w form inp btn container =
     \<lparr>messages = [seed],
      apiKey = read_apiKey w,
      chatForm = form,
      userInput = inp,
      sendBtn = btn,
      chatContainer = (if container then Some [] else None),
      nextId = 0,
      timers = [],
      console = [],
      fetched = [],
      pending = []\<rparr>"

section \<open>Example inputs\<close>

text \<open>A page with the four elements, no key set by \<open>secrets.js\<close>, and \<open>v\<close> typed
  into the input field.\<close>

definition demo_page :: "jsstring \<Rightarrow> state" where
  "demo_page v =
     init \<lparr>OPENAI_API_KEY = JUndefined, API_KEY = JUndefined, OPENAI_KEY = JUndefined\<rparr>
       True (Some \<lparr>input_value = v, focused = False\<rparr>) (Some False) True"

text \<open>A response of the relay with status 200 whose JSON carries \<open>v\<close> at
  \<open>choices[0].message.content\<close>.\<close>

definition completion_response :: "jsval \<Rightarrow> response" where
  "completion_response v =
     \<lparr>resp_status = 200,
      resp_text = Inr [],
      resp_json = Inr (JObj [(js ''id'', JStr (js ''cmpl-1'')),
                             (js ''choices'',
                                JArr [JObj [(js ''index'', JNum (Finite 0)),
                                            (js ''message'',
                                               JObj [(js ''role'', JStr (js ''assistant'')),
                                                     (js ''content'', v)])]])])\<rparr>"

section \<open>Field by field: what each function changes\<close>

lemma addMessage_fields [simp]:
  "messages (addMessage r txt s) = messages s"
  "apiKey (addMessage r txt s) = apiKey s"
  "chatForm (addMessage r txt s) = chatForm s"
  "userInput (addMessage r txt s) = userInput s"
  "sendBtn (addMessage r txt s) = sendBtn s"
  "console (addMessage r txt s) = console s"
  "fetched (addMessage r txt s) = fetched s"
  "pending (addMessage r txt s) = pending s"
  "nextId (addMessage r txt s) = Suc (nextId s)"
  by (simp_all add: addMessage_def Let_def split: option.splits)

lemma remove_element_fields [simp]:
  "messages (remove_element i s) = messages s"
  "apiKey (remove_element i s) = apiKey s"
  "chatForm (remove_element i s) = chatForm s"
  "userInput (remove_element i s) = userInput s"
  "sendBtn (remove_element i s) = sendBtn s"
  "console (remove_element i s) = console s"
  "fetched (remove_element i s) = fetched s"
  "pending (remove_element i s) = pending s"
  "nextId (remove_element i s) = nextId s"
  "timers (remove_element i s) = timers s"
  "chatContainer (remove_element i s) = map_option (filter (\<lambda>e. el_id e \<noteq> i)) (chatContainer s)"
  by (simp_all add: remove_element_def)

lemma getChatCompletion_fetch_fields [simp]:
  "messages (getChatCompletion_fetch ms s) = messages s"
  "apiKey (getChatCompletion_fetch ms s) = apiKey s"
  "chatForm (getChatCompletion_fetch ms s) = chatForm s"
  "userInput (getChatCompletion_fetch ms s) = userInput s"
  "sendBtn (getChatCompletion_fetch ms s) = sendBtn s"
  "chatContainer (getChatCompletion_fetch ms s) = chatContainer s"
  "pending (getChatCompletion_fetch ms s) = pending s"
  "nextId (getChatCompletion_fetch ms s) = nextId s"
  "timers (getChatCompletion_fetch ms s) = timers s"
  "fetched (getChatCompletion_fetch ms s) = fetched s @ [getChatCompletion_request ms]"
  by (simp_all add: getChatCompletion_fetch_def)

lemma el_id_msgEl [simp]: "el_id (msgEl i r txt) = i"
  by (simp add: msgEl_def)

lemma el_id_typing_element [simp]: "el_id (typing_element i) = i"
  by (simp add: typing_element_def)

lemma msgEl_rendered:
  "(msgEl i r txt)\<lparr>classList := classList_add [js ''new''] (classList (msgEl i r txt))\<rparr> =
     \<lparr>el_id = i,
      classList = [js ''chat-message'', js ''msg'', if r = User then js ''user'' else js ''ai'', js ''new''],
      msg_label = (if r = User then js ''User: '' else js ''Assistant: ''),
      msg_text = txt\<rparr>"
  by (simp add: msgEl_def classList_add_def js_def)

lemma chatContainer_addMessage:
  "chatContainer (addMessage r txt s) =
     map_option (\<lambda>kids. kids @
        [\<lparr>el_id = nextId s,
          classList = [js ''chat-message'', js ''msg'', if r = User then js ''user'' else js ''ai'', js ''new''],
          msg_label = (if r = User then js ''User: '' else js ''Assistant: ''),
          msg_text = txt\<rparr>]) (chatContainer s)"
  by (simp add: addMessage_def Let_def msgEl_rendered split: option.splits)

lemma messages_handleSend:
  "messages (snd (handleSend s)) =
     (case userInput s of None \<Rightarrow> messages s
      | Some inp \<Rightarrow> if trim (input_value inp) = [] then messages s
                    else messages s @ [\<lparr>role = User, content = JStr (trim (input_value inp))\<rparr>])"
  by (simp add: handleSend_def Let_def split: option.splits)

lemma messages_handleSend_resume:
  "messages (snd (handleSend_resume t fr s)) =
     messages s @ (case getChatCompletion_settle fr of
                     Inr reply \<Rightarrow> [\<lparr>role = Assistant, content = reply\<rparr>]
                   | Inl msg \<Rightarrow> [])"
  by (simp add: handleSend_resume_def Let_def split: option.splits sum.splits)

lemma fetched_handleSend_resume:
  "fetched (snd (handleSend_resume t fr s)) = fetched s"
  by (simp add: handleSend_resume_def Let_def split: option.splits sum.splits)

lemma chatContainer_handleSend_resume:
  "chatContainer (snd (handleSend_resume t fr s)) =
     map_option (\<lambda>kids. filter (\<lambda>e. el_id e \<noteq> t) kids @
        [\<lparr>el_id = nextId s,
          classList = [js ''chat-message'', js ''msg'', js ''ai'', js ''new''],
          msg_label = js ''Assistant: '',
          msg_text = (case getChatCompletion_settle fr of
                        Inr reply \<Rightarrow> reply
                      | Inl msg \<Rightarrow> JStr (js ''Error: '' @ msg))\<rparr>]) (chatContainer s)"
  by (cases "chatContainer s")
     (simp_all add: handleSend_resume_def Let_def chatContainer_addMessage
        split: option.splits sum.splits)

lemma handleSend_Suspended:
  "handleSend s = (Suspended t, s1) \<longleftrightarrow>
     (\<exists>inp d kids. userInput s = Some inp \<and> trim (input_value inp) \<noteq> [] \<and> sendBtn s = Some d
        \<and> chatContainer s = Some kids \<and> t = Suc (nextId s)
        \<and> s1 = s\<lparr>messages := messages s @ [\<lparr>role = User, content = JStr (trim (input_value inp))\<rparr>],
                  userInput := Some (inp\<lparr>input_value := []\<rparr>),
                  sendBtn := Some True,
                  chatContainer := Some (kids @
                    [\<lparr>el_id = nextId s,
                      classList = [js ''chat-message'', js ''msg'', js ''user'', js ''new''],
                      msg_label = js ''User: '',
                      msg_text = JStr (trim (input_value inp))\<rparr>,
                     typing_element (Suc (nextId s))]),
                  nextId := Suc (Suc (nextId s)),
                  timers := timers s @ [nextId s],
                  console := console s @ [LogInfo (js ''POSTing chat completion request to worker:'') WORKER_URL],
                  fetched := fetched s @ [getChatCompletion_request
                     (messages s @ [\<lparr>role = User, content = JStr (trim (input_value inp))\<rparr>])],
                  pending := pending s @ [Suc (nextId s)]\<rparr>)"
  apply (cases "userInput s"; cases "sendBtn s"; cases "chatContainer s")
  apply (auto simp add: handleSend_def Let_def addMessage_def msgEl_rendered getChatCompletion_fetch_def)
  done

lemma settle_completion_response:
  "getChatCompletion_settle (Responded (completion_response v)) =
     (if falsy v then Inl (js ''No assistant message found in API response.'') else Inr v)"
  by (simp add: getChatCompletion_settle_def completion_response_def ok_def reply_of_def js_def)

lemma trim_hi: "trim (js '' hi '') = js ''hi''"
  by (simp add: trim_def is_ws_def js_def)

lemma trim_empty_iff: "trim v = [] \<longleftrightarrow> list_all is_ws v"
proof (cases "dropWhile is_ws v")
  case Nil
  then have "list_all is_ws v"
    by (simp add: dropWhile_eq_Nil_conv list_all_iff)
  moreover have "trim v = []"
    unfolding trim_def Nil by simp
  ultimately show ?thesis by simp
next
  case (Cons c cs)
  then have c: "\<not> is_ws c"
    using hd_dropWhile [of is_ws v] by simp
  have "c \<in> set (rev (dropWhile is_ws v))"
    using Cons by simp
  then have "dropWhile is_ws (rev (dropWhile is_ws v)) \<noteq> []"
    using c by (auto simp add: dropWhile_eq_Nil_conv)
  moreover have "\<not> list_all is_ws v"
  proof
    assume "list_all is_ws v"
    then have "dropWhile is_ws v = []"
      by (simp add: dropWhile_eq_Nil_conv list_all_iff)
    with Cons show False by simp
  qed
  ultimately show ?thesis unfolding trim_def by simp
qed

lemma settle_Inl_iff:
  "(\<exists>msg. getChatCompletion_settle fr = Inl msg) \<longleftrightarrow>
     (case fr of
        Rejected e \<Rightarrow> True
      | Responded resp \<Rightarrow>
          \<not> ok resp \<or> (\<exists>e. resp_json resp = Inl e)
          \<or> (\<exists>data. resp_json resp = Inr data \<and> falsy (reply_of data)))"
  by (auto simp add: getChatCompletion_settle_def Let_def split: fetch_result.splits sum.splits)

lemma read_apiKey_unset:
  "read_apiKey \<lparr>OPENAI_API_KEY = JUndefined, API_KEY = JUndefined, OPENAI_KEY = JUndefined\<rparr> = JStr []"
  by (simp add: read_apiKey_def js_or_def)

lemma handleSend_demo_page:
  assumes "trim v \<noteq> []"
  shows "handleSend (demo_page v) =
     (Suspended 1,
      \<lparr>messages = [seed, \<lparr>role = User, content = JStr (trim v)\<rparr>],
       apiKey = JStr [],
       chatForm = True,
       userInput = Some \<lparr>input_value = [], focused = False\<rparr>,
       sendBtn = Some True,
       chatContainer = Some
         [\<lparr>el_id = 0,
           classList = [js ''chat-message'', js ''msg'', js ''user'', js ''new''],
           msg_label = js ''User: '',
           msg_text = JStr (trim v)\<rparr>,
          typing_element 1],
       nextId = 2,
       timers = [0],
       console = [LogInfo (js ''POSTing chat completion request to worker:'') WORKER_URL],
       fetched = [getChatCompletion_request [seed, \<lparr>role = User, content = JStr (trim v)\<rparr>]],
       pending = [1]\<rparr>)"
  using assms
  by (auto simp add: handleSend_Suspended demo_page_def init_def read_apiKey_unset)

lemma trim_letters: "trim (js ''hi'') = js ''hi''"
  by (simp add: trim_def is_ws_def js_def)

lemma js_hi_nonempty: "js ''hi'' \<noteq> []"
  by (simp add: js_def)

lemma show_nat_500: "show_nat 500 = js ''500''"
  by (simp add: show_nat.simps [of 500] show_nat.simps [of 50] show_nat.simps [of 5] js_def)

lemma fst_handleSend_resume:
  "fst (handleSend_resume t fr s) =
     (if sendBtn s = None \<or> userInput s = None then Threw else Returned)"
  by (simp add: handleSend_resume_def Let_def split: option.splits sum.splits)

lemma sendBtn_handleSend_resume:
  "sendBtn (snd (handleSend_resume t fr s)) = map_option (\<lambda>d. False) (sendBtn s)"
  by (auto simp add: handleSend_resume_def Let_def split: option.splits sum.splits)

lemma userInput_handleSend_resume:
  "userInput (snd (handleSend_resume t fr s)) =
     (if sendBtn s = None then userInput s
      else map_option (\<lambda>inp. inp\<lparr>focused := True\<rparr>) (userInput s))"
  by (auto simp add: handleSend_resume_def Let_def split: option.splits sum.splits)

lemma fetched_handleSend:
  "fetched (snd (handleSend s)) =
     fetched s @ (case fst (handleSend s) of
                    Suspended t \<Rightarrow> [getChatCompletion_request (messages (snd (handleSend s)))]
                  | _ \<Rightarrow> [])"
  by (simp add: handleSend_def Let_def split: option.splits)

lemma messages_timeout_new [simp]: "messages (timeout_new i s) = messages s"
  by (simp add: timeout_new_def)

lemma messages_dispatch:
  "messages (dispatch ev s) =
     messages s @
       (case ev of
          Edit v \<Rightarrow> []
        | Submit \<Rightarrow> if chatForm s then drop (length (messages s)) (messages (snd (handleSend s))) else []
        | Click \<Rightarrow> if \<not> chatForm s \<and> sendBtn s \<noteq> None
                   then drop (length (messages s)) (messages (snd (handleSend s))) else []
        | Keydown k shiftKey \<Rightarrow>
            if userInput s \<noteq> None \<and> k = js ''Enter'' \<and> \<not> shiftKey
            then drop (length (messages s)) (messages (snd (handleSend s))) else []
        | Settle i fr \<Rightarrow>
            if i \<in> set (pending s)
            then (case getChatCompletion_settle fr of
                    Inr reply \<Rightarrow> [\<lparr>role = Assistant, content = reply\<rparr>]
                  | Inl msg \<Rightarrow> [])
            else []
        | Timeout i \<Rightarrow> [])"
  by (cases ev)
     (simp_all add: dispatch_def messages_handleSend messages_handleSend_resume
        split: option.splits)

lemma prefix_messages_dispatch: "prefix (messages s) (messages (dispatch ev s))"
  by (subst messages_dispatch) simp

lemma prefix_messages_run: "prefix (messages s) (messages (run evs s))"
proof (induction evs arbitrary: s)
  case Nil
  show ?case by simp
next
  case (Cons ev evs)
  have "prefix (messages s) (messages (dispatch ev s))"
    by (rule prefix_messages_dispatch)
  also have "prefix (messages (dispatch ev s)) (messages (run evs (dispatch ev s)))"
    by (rule Cons.IH)
  finally show ?case by simp
qed

lemma addMessage_apiKey_update:
  "addMessage r txt (s\<lparr>apiKey := k\<rparr>) = (addMessage r txt s)\<lparr>apiKey := k\<rparr>"
  by (simp add: addMessage_def Let_def split: option.splits)

lemma remove_element_apiKey_update:
  "remove_element i (s\<lparr>apiKey := k\<rparr>) = (remove_element i s)\<lparr>apiKey := k\<rparr>"
  by (simp add: remove_element_def)

lemma getChatCompletion_fetch_apiKey_update:
  "getChatCompletion_fetch ms (s\<lparr>apiKey := k\<rparr>) = (getChatCompletion_fetch ms s)\<lparr>apiKey := k\<rparr>"
  by (simp add: getChatCompletion_fetch_def)

lemma timeout_new_apiKey_update:
  "timeout_new i (s\<lparr>apiKey := k\<rparr>) = (timeout_new i s)\<lparr>apiKey := k\<rparr>"
  by (simp add: timeout_new_def)

lemma handleSend_apiKey_update:
  "handleSend (s\<lparr>apiKey := k\<rparr>) = (fst (handleSend s), (snd (handleSend s))\<lparr>apiKey := k\<rparr>)"
  by (cases "userInput s"; cases "sendBtn s"; cases "chatContainer s")
     (simp_all add: handleSend_def Let_def addMessage_def getChatCompletion_fetch_def)

lemma handleSend_resume_apiKey_update:
  "handleSend_resume t fr (s\<lparr>apiKey := k, pending := p\<rparr>) =
     (fst (handleSend_resume t fr (s\<lparr>pending := p\<rparr>)),
      (snd (handleSend_resume t fr (s\<lparr>pending := p\<rparr>)))\<lparr>apiKey := k\<rparr>)"
  by (cases "userInput s"; cases "sendBtn s"; cases "chatContainer s";
      cases "getChatCompletion_settle fr")
     (simp_all add: handleSend_resume_def Let_def addMessage_def remove_element_def)

lemma dispatch_apiKey_update:
  "dispatch ev (s\<lparr>apiKey := k\<rparr>) = (dispatch ev s)\<lparr>apiKey := k\<rparr>"
proof (cases ev)
  case (Edit v)
  then show ?thesis by (cases "userInput s") (simp_all add: dispatch_def)
next
  case Submit
  then show ?thesis by (simp add: dispatch_def handleSend_apiKey_update)
next
  case Click
  then show ?thesis by (simp add: dispatch_def handleSend_apiKey_update)
next
  case (Keydown key shiftKey)
  then show ?thesis by (auto simp add: dispatch_def handleSend_apiKey_update)
next
  case (Settle i fr)
  then show ?thesis by (simp add: dispatch_def handleSend_resume_apiKey_update)
next
  case (Timeout i)
  then show ?thesis by (simp add: dispatch_def timeout_new_def)
qed

lemma run_apiKey_update:
  "run evs (s\<lparr>apiKey := k\<rparr>) = (run evs s)\<lparr>apiKey := k\<rparr>"
  by (induction evs arbitrary: s) (simp_all add: dispatch_apiKey_update)

lemma init_apiKey:
  "init w1 form inp btn container = (init w2 form inp btn container)\<lparr>apiKey := read_apiKey w1\<rparr>"
  by (simp add: init_def)

lemma settle_Inr_truthy:
  "getChatCompletion_settle fr = Inr reply \<Longrightarrow> \<not> falsy reply"
  by (auto simp add: getChatCompletion_settle_def Let_def
        split: fetch_result.splits sum.splits if_splits)

lemma settle_Inr_iff:
  "getChatCompletion_settle fr = Inr reply \<longleftrightarrow>
     (\<exists>resp data. fr = Responded resp \<and> ok resp \<and> resp_json resp = Inr data
        \<and> reply = reply_of data \<and> \<not> falsy (reply_of data))"
  by (auto simp add: getChatCompletion_settle_def Let_def
        split: fetch_result.splits sum.splits if_splits)

lemma truthy_seed: "\<not> falsy (content seed)"
  by (simp add: seed_def js_def)

lemma truthy_dispatch:
  assumes "list_all (\<lambda>m. \<not> falsy (content m)) (messages s)"
  shows "list_all (\<lambda>m. \<not> falsy (content m)) (messages (dispatch ev s))"
proof (cases ev)
  case (Settle i fr)
  then show ?thesis
    using assms
    by (cases "getChatCompletion_settle fr")
       (simp_all add: messages_dispatch settle_Inr_truthy)
qed (use assms in \<open>simp_all add: messages_dispatch messages_handleSend split: option.splits\<close>)

lemma truthy_run:
  "list_all (\<lambda>m. \<not> falsy (content m)) (messages s) \<Longrightarrow>
   list_all (\<lambda>m. \<not> falsy (content m)) (messages (run evs s))"
  by (induction evs arbitrary: s) (simp_all add: truthy_dispatch)

lemma truthy_session:
  "list_all (\<lambda>m. \<not> falsy (content m)) (messages (run evs (init w form inp btn container)))"
  by (rule truthy_run) (simp add: init_def truthy_seed)

lemma ok_completion_response: "ok (completion_response v)"
  by (simp add: ok_def completion_response_def)

lemma reply_of_completion_response:
  "\<exists>data. resp_json (completion_response v) = Inr data \<and> reply_of data = v"
  by (simp add: completion_response_def reply_of_def js_def)

lemma reply_of_path:
  assumes "map_of kvs (js ''choices'') = Some (JArr (JObj mkvs # rest))"
    and "map_of mkvs (js ''message'') = Some (JObj ckvs)"
    and "map_of ckvs (js ''content'') = Some v"
  shows "reply_of (JObj kvs) = v"
  using assms by (simp add: reply_of_def)

lemma typing_element_bubble:
  "typing_element t \<noteq>
     \<lparr>el_id = i,
      classList = [js ''chat-message'', js ''msg'', js ''ai'', js ''new''],
      msg_label = l, msg_text = v\<rparr>"
  by (simp add: typing_element_def classList_add_def js_def)

section \<open>The claims\<close>

text \<open>
  C1. When the trimmed text of the input field is not empty, \<open>handleSend\<close> appends
  exactly one user message, holding the trimmed text, to the transcript; when its call
  settles, the resumed \<open>handleSend\<close> appends exactly one assistant message, holding
  the extracted reply, if \<open>getChatCompletion\<close> returned, and nothing if it threw.
\<close>

theorem handleSend_transcript:
  assumes "userInput s = Some inp" and "trim (input_value inp) \<noteq> []"
  shows "messages (snd (handleSend s)) =
           messages s @ [\<lparr>role = User, content = JStr (trim (input_value inp))\<rparr>]
       \<and> (\<forall>t fr s'. messages (snd (handleSend_resume t fr s')) =
             messages s' @ (case getChatCompletion_settle fr of
                              Inr reply \<Rightarrow> [\<lparr>role = Assistant, content = reply\<rparr>]
                            | Inl msg \<Rightarrow> []))"
  using assms by (simp add: messages_handleSend messages_handleSend_resume)

theorem handleSend_transcript_witness:
  "userInput (demo_page (js '' hi '')) = Some \<lparr>input_value = js '' hi '', focused = False\<rparr>
   \<and> trim (js '' hi '') = js ''hi''
   \<and> messages (snd (handleSend (demo_page (js '' hi '')))) =
         [seed, \<lparr>role = User, content = JStr (js ''hi'')\<rparr>]
   \<and> messages (snd (handleSend_resume 1 (Responded (completion_response (JStr (js ''hello''))))
                       (snd (handleSend (demo_page (js '' hi '')))))) =
         [seed, \<lparr>role = User, content = JStr (js ''hi'')\<rparr>,
                \<lparr>role = Assistant, content = JStr (js ''hello'')\<rparr>]"
proof -
  let ?inp = "\<lparr>input_value = js '' hi '', focused = False\<rparr>"
  have h1: "userInput (demo_page (js '' hi '')) = Some ?inp"
    by (simp add: demo_page_def init_def)
  have h2: "trim (input_value ?inp) \<noteq> []"
    by (simp add: trim_hi) (simp add: js_def)
  have m: "messages (demo_page (js '' hi '')) = [seed]"
    by (simp add: demo_page_def init_def)
  have r: "getChatCompletion_settle (Responded (completion_response (JStr (js ''hello'')))) = Inr (JStr (js ''hello''))"
    by (simp add: settle_completion_response) (simp add: js_def)
  show ?thesis
    using handleSend_transcript [OF h1 h2] h1 m r by (simp add: trim_hi)
qed

text \<open>
  C6. When the input field holds only whitespace (or nothing), its trimmed text is empty
  and \<open>handleSend\<close> returns at once with the state as it was: the transcript, the chat
  window, the input field, the button and the list of requests given to \<open>fetch\<close> are
  all unchanged.
\<close>

theorem handleSend_empty_noop:
  assumes "userInput s = Some inp" and "list_all is_ws (input_value inp)"
  shows "trim (input_value inp) = [] \<and> handleSend s = (Returned, s)"
  using assms by (simp add: trim_empty_iff handleSend_def)

theorem handleSend_empty_noop_witness:
  "list_all is_ws [32, 9, 160, 10]
   \<and> handleSend (demo_page [32, 9, 160, 10]) = (Returned, demo_page [32, 9, 160, 10])
   \<and> fetched (snd (handleSend (demo_page [32, 9, 160, 10]))) = []
   \<and> chatContainer (snd (handleSend (demo_page [32, 9, 160, 10]))) = Some []
   \<and> messages (snd (handleSend (demo_page [32, 9, 160, 10]))) = [seed]"
proof -
  let ?inp = "\<lparr>input_value = [32, 9, 160, 10], focused = False\<rparr>"
  have h1: "userInput (demo_page [32, 9, 160, 10]) = Some ?inp"
    by (simp add: demo_page_def init_def)
  have h2: "list_all is_ws (input_value ?inp)"
    by (simp add: is_ws_def)
  have f: "fetched (demo_page [32, 9, 160, 10]) = []"
      "chatContainer (demo_page [32, 9, 160, 10]) = Some []"
      "messages (demo_page [32, 9, 160, 10]) = [seed]"
    by (simp_all add: demo_page_def init_def)
  show ?thesis
    using handleSend_empty_noop [OF h1 h2] h2 f by simp
qed

text \<open>
  C3. When \<open>getChatCompletion\<close> throws, with message \<open>msg\<close>, the resumed
  \<open>handleSend\<close> leaves the transcript as it was and appends to the chat window, in place
  of the typing indicator, one assistant-styled bubble reading \<open>Error: msg\<close>. For the
  cycle started from \<open>s0\<close> the transcript is that of \<open>s0\<close> with the user message
  at its end, one longer than before the send.
\<close>

theorem failed_call_keeps_transcript:
  assumes "getChatCompletion_settle fr = Inl msg"
  shows "messages (snd (handleSend_resume t fr s)) = messages s
       \<and> chatContainer (snd (handleSend_resume t fr s)) =
           map_option (\<lambda>kids. filter (\<lambda>e. el_id e \<noteq> t) kids @
             [\<lparr>el_id = nextId s,
               classList = [js ''chat-message'', js ''msg'', js ''ai'', js ''new''],
               msg_label = js ''Assistant: '',
               msg_text = JStr (js ''Error: '' @ msg)\<rparr>]) (chatContainer s)
       \<and> (\<forall>s0. handleSend s0 = (Suspended t, s) \<longrightarrow>
             length (messages (snd (handleSend_resume t fr s))) = Suc (length (messages s0))
             \<and> butlast (messages (snd (handleSend_resume t fr s))) = messages s0
             \<and> role (last (messages (snd (handleSend_resume t fr s)))) = User)"
  using assms
  by (auto simp add: messages_handleSend_resume chatContainer_handleSend_resume handleSend_Suspended)

theorem failed_call_keeps_transcript_witness:
  "getChatCompletion_settle (Rejected (js ''Failed to fetch'')) = Inl (js ''Failed to fetch'')
   \<and> messages (snd (handleSend_resume 1 (Rejected (js ''Failed to fetch''))
                      (snd (handleSend (demo_page (js ''hi'')))))) =
        [seed, \<lparr>role = User, content = JStr (js ''hi'')\<rparr>]
   \<and> chatContainer (snd (handleSend_resume 1 (Rejected (js ''Failed to fetch''))
                      (snd (handleSend (demo_page (js ''hi'')))))) =
        Some [\<lparr>el_id = 0,
                classList = [js ''chat-message'', js ''msg'', js ''user'', js ''new''],
                msg_label = js ''User: '',
                msg_text = JStr (js ''hi'')\<rparr>,
              \<lparr>el_id = 2,
                classList = [js ''chat-message'', js ''msg'', js ''ai'', js ''new''],
                msg_label = js ''Assistant: '',
                msg_text = JStr (js ''Error: '' @ js ''Failed to fetch'')\<rparr>]"
proof -
  have h: "getChatCompletion_settle (Rejected (js ''Failed to fetch'')) = Inl (js ''Failed to fetch'')"
    by (simp add: getChatCompletion_settle_def)
  have s: "trim (js ''hi'') \<noteq> []"
    by (simp add: trim_letters js_hi_nonempty)
  show ?thesis
    using failed_call_keeps_transcript [OF h, of 1 "snd (handleSend (demo_page (js ''hi'')))"] h
    by (simp add: handleSend_demo_page [OF s] trim_letters)
qed

text \<open>
  C7. A response with a status outside 200..299 and body text \<open>B\<close> makes
  \<open>getChatCompletion\<close> throw; the bubble rendered by \<open>handleSend\<close> reads
  \<open>Error: API request failed: S B\<close>, which contains the decimal digits of the status
  and the body text, and the transcript is left as it was.
\<close>

theorem http_error_is_rendered:
  assumes "resp_status resp < 200 \<or> 299 < resp_status resp" and "resp_text resp = Inr B"
  shows "getChatCompletion_settle (Responded resp) =
           Inl (js ''API request failed: '' @ show_nat (resp_status resp) @ js '' '' @ B)
       \<and> messages (snd (handleSend_resume t (Responded resp) s)) = messages s
       \<and> chatContainer (snd (handleSend_resume t (Responded resp) s)) =
           map_option (\<lambda>kids. filter (\<lambda>e. el_id e \<noteq> t) kids @
             [\<lparr>el_id = nextId s,
               classList = [js ''chat-message'', js ''msg'', js ''ai'', js ''new''],
               msg_label = js ''Assistant: '',
               msg_text = JStr (js ''Error: '' @ js ''API request failed: '' @
                                show_nat (resp_status resp) @ js '' '' @ B)\<rparr>]) (chatContainer s)
       \<and> sublist (show_nat (resp_status resp))
            (js ''Error: '' @ js ''API request failed: '' @ show_nat (resp_status resp) @ js '' '' @ B)
       \<and> sublist B
            (js ''Error: '' @ js ''API request failed: '' @ show_nat (resp_status resp) @ js '' '' @ B)"
proof -
  have f: "getChatCompletion_settle (Responded resp) =
             Inl (js ''API request failed: '' @ show_nat (resp_status resp) @ js '' '' @ B)"
    using assms by (auto simp add: getChatCompletion_settle_def ok_def)
  have s1: "sublist (show_nat (resp_status resp))
              ((js ''Error: '' @ js ''API request failed: '') @ show_nat (resp_status resp) @ (js '' '' @ B))"
    by (rule sublist_appendI)
  have s2: "sublist B
              ((js ''Error: '' @ js ''API request failed: '' @ show_nat (resp_status resp) @ js '' '') @ B)"
    by (rule sublist_append_leftI)
  show ?thesis
    using f s1 s2
    by (simp add: messages_handleSend_resume chatContainer_handleSend_resume)
qed

theorem http_error_is_rendered_witness:
  "getChatCompletion_settle
      (Responded \<lparr>resp_status = 500, resp_text = Inr (js ''internal error''),
                  resp_json = Inl (js ''Unexpected token'')\<rparr>) =
     Inl (js ''API request failed: 500 internal error'')
   \<and> messages (snd (handleSend_resume 1
         (Responded \<lparr>resp_status = 500, resp_text = Inr (js ''internal error''),
                     resp_json = Inl (js ''Unexpected token'')\<rparr>)
         (snd (handleSend (demo_page (js ''hi'')))))) =
       [seed, \<lparr>role = User, content = JStr (js ''hi'')\<rparr>]
   \<and> chatContainer (snd (handleSend_resume 1
         (Responded \<lparr>resp_status = 500, resp_text = Inr (js ''internal error''),
                     resp_json = Inl (js ''Unexpected token'')\<rparr>)
         (snd (handleSend (demo_page (js ''hi'')))))) =
       Some [\<lparr>el_id = 0,
               classList = [js ''chat-message'', js ''msg'', js ''user'', js ''new''],
               msg_label = js ''User: '',
               msg_text = JStr (js ''hi'')\<rparr>,
             \<lparr>el_id = 2,
               classList = [js ''chat-message'', js ''msg'', js ''ai'', js ''new''],
               msg_label = js ''Assistant: '',
               msg_text = JStr (js ''Error: API request failed: 500 internal error'')\<rparr>]
   \<and> sublist (js ''500'') (js ''Error: API request failed: 500 internal error'')
   \<and> sublist (js ''internal error'') (js ''Error: API request failed: 500 internal error'')"
proof -
  let ?resp = "\<lparr>resp_status = 500, resp_text = Inr (js ''internal error''),
                resp_json = Inl (js ''Unexpected token'')\<rparr>"
  have h1: "resp_status ?resp < 200 \<or> 299 < resp_status ?resp" by simp
  have h2: "resp_text ?resp = Inr (js ''internal error'')" by simp
  have s: "trim (js ''hi'') \<noteq> []"
    by (simp add: trim_letters js_hi_nonempty)
  show ?thesis
    using http_error_is_rendered [OF h1 h2, of 1 "snd (handleSend (demo_page (js ''hi'')))"]
    unfolding handleSend_demo_page [OF s] trim_letters
    by (simp add: show_nat_500 js_def)
qed

text \<open>
  C2. Every event leaves the transcript it found as a prefix of the transcript it leaves,
  so no message is changed, dropped or moved, and so does every sequence of events. The
  transcript of a freshly loaded page is the seed system message alone; hence after any
  sequence of sends and settlements the first message is still the seed.
\<close>

theorem transcript_append_only:
  "prefix (messages s) (messages (dispatch ev s))
   \<and> prefix (messages s) (messages (run evs s))
   \<and> messages (init w form inp btn container) = [seed]
   \<and> hd (messages (run evs (init w form inp btn container))) = seed
   \<and> messages (run evs (init w form inp btn container)) \<noteq> []"
proof -
  have i: "messages (init w form inp btn container) = [seed]"
    by (simp add: init_def)
  have "prefix [seed] (messages (run evs (init w form inp btn container)))"
    using prefix_messages_run [of "init w form inp btn container" evs] by (simp add: i)
  then obtain rest where "messages (run evs (init w form inp btn container)) = seed # rest"
    by (auto simp add: prefix_def)
  then show ?thesis
    by (simp add: i prefix_messages_dispatch prefix_messages_run)
qed

text \<open>
  C9. Whatever \<open>secrets.js\<close> has put into the three globals, the session runs the same
  but for the value of the variable \<open>apiKey\<close> itself: after any sequence of events, the
  requests given to \<open>fetch\<close> (URL, method, headers and body) are the same for any two
  settings of the globals, and one \<open>handleSend\<close> issues the same request whatever
  \<open>apiKey\<close> holds.
\<close>

theorem request_independent_of_apiKey:
  "run evs (init w1 form inp btn container) =
     (run evs (init w2 form inp btn container))\<lparr>apiKey := read_apiKey w1\<rparr>
   \<and> fetched (run evs (init w1 form inp btn container)) =
       fetched (run evs (init w2 form inp btn container))
   \<and> fetched (snd (handleSend (s\<lparr>apiKey := k\<rparr>))) = fetched (snd (handleSend s))"
proof -
  have "run evs (init w1 form inp btn container) =
          (run evs (init w2 form inp btn container))\<lparr>apiKey := read_apiKey w1\<rparr>"
    by (subst init_apiKey [of w1 _ _ _ _ w2]) (rule run_apiKey_update)
  moreover from this
  have "fetched (run evs (init w1 form inp btn container)) =
          fetched (run evs (init w2 form inp btn container))"
    by simp
  ultimately show ?thesis by (simp add: handleSend_apiKey_update)
qed

text \<open>
  C10. A response with a 2xx status whose JSON parses and whose
  \<open>choices[0].message.content\<close> is falsy (missing, \<open>null\<close>, \<open>false\<close>, zero or the
  empty string) makes \<open>getChatCompletion\<close> throw "No assistant message found in API
  response."; the resumed \<open>handleSend\<close> renders the error bubble and leaves the
  transcript as it was. In every reachable state no message of the transcript has falsy
  content: an empty reply never becomes a transcript entry.
\<close>

theorem falsy_reply_is_failure:
  assumes "ok resp" and "resp_json resp = Inr data" and "falsy (reply_of data)"
  shows "getChatCompletion_settle (Responded resp) =
           Inl (js ''No assistant message found in API response.'')
       \<and> messages (snd (handleSend_resume t (Responded resp) s)) = messages s
       \<and> chatContainer (snd (handleSend_resume t (Responded resp) s)) =
           map_option (\<lambda>kids. filter (\<lambda>e. el_id e \<noteq> t) kids @
             [\<lparr>el_id = nextId s,
               classList = [js ''chat-message'', js ''msg'', js ''ai'', js ''new''],
               msg_label = js ''Assistant: '',
               msg_text = JStr (js ''Error: '' @ js ''No assistant message found in API response.'')\<rparr>])
             (chatContainer s)
       \<and> list_all (\<lambda>m. \<not> falsy (content m))
            (messages (run evs (init w form inp btn container)))"
proof -
  have f: "getChatCompletion_settle (Responded resp) =
             Inl (js ''No assistant message found in API response.'')"
    using assms by (simp add: getChatCompletion_settle_def)
  show ?thesis
    using f
    by (simp add: messages_handleSend_resume chatContainer_handleSend_resume truthy_session)
qed

theorem falsy_reply_is_failure_witness:
  "getChatCompletion_settle (Responded (completion_response (JStr []))) =
     Inl (js ''No assistant message found in API response.'')
   \<and> messages (snd (handleSend_resume 1 (Responded (completion_response (JStr [])))
                      (snd (handleSend (demo_page (js ''hi'')))))) =
       [seed, \<lparr>role = User, content = JStr (js ''hi'')\<rparr>]
   \<and> chatContainer (snd (handleSend_resume 1 (Responded (completion_response (JStr [])))
                      (snd (handleSend (demo_page (js ''hi'')))))) =
       Some [\<lparr>el_id = 0,
               classList = [js ''chat-message'', js ''msg'', js ''user'', js ''new''],
               msg_label = js ''User: '',
               msg_text = JStr (js ''hi'')\<rparr>,
             \<lparr>el_id = 2,
               classList = [js ''chat-message'', js ''msg'', js ''ai'', js ''new''],
               msg_label = js ''Assistant: '',
               msg_text = JStr (js ''Error: No assistant message found in API response.'')\<rparr>]"
proof -
  obtain data where d: "resp_json (completion_response (JStr [])) = Inr data"
      and r: "reply_of data = JStr []"
    using reply_of_completion_response [of "JStr []"] by blast
  have h3: "falsy (reply_of data)" by (simp add: r)
  have s: "trim (js ''hi'') \<noteq> []"
    by (simp add: trim_letters js_hi_nonempty)
  show ?thesis
    using falsy_reply_is_failure [OF ok_completion_response d h3,
            of 1 "snd (handleSend (demo_page (js ''hi'')))"]
    unfolding handleSend_demo_page [OF s] trim_letters
    by (simp add: js_def)
qed

text \<open>
  C8. On a page with the button and the chat window, a \<open>handleSend\<close> with non-empty
  trimmed text gives exactly one request to \<open>fetch\<close>: a POST to the worker URL with the
  JSON content type, whose body holds the model \<open>gpt-4o\<close> and the whole transcript in
  order, the user message just appended at its end. No \<open>handleSend\<close> gives more than one
  request, and its resumption gives none. When \<open>getChatCompletion\<close> returns, the value
  returned was read from the JSON of an ok response at \<open>choices[0].message.content\<close>.
\<close>

theorem send_cycle_request:
  assumes "userInput s = Some inp" and "trim (input_value inp) \<noteq> []"
    and "sendBtn s = Some d" and "chatContainer s = Some kids"
  shows "fst (handleSend s) = Suspended (Suc (nextId s))
       \<and> fetched (snd (handleSend s)) = fetched s @
           [\<lparr>url = js ''https://loreal-worker.mtrigui.workers.dev/'',
             http_method = js ''POST'',
             headers = [(js ''Content-Type'', js ''application/json'')],
             body = \<lparr>model = js ''gpt-4o'',
                      body_messages = messages s @
                        [\<lparr>role = User, content = JStr (trim (input_value inp))\<rparr>]\<rparr>\<rparr>]
       \<and> (\<forall>s'. length (fetched (snd (handleSend s'))) \<le> Suc (length (fetched s')))
       \<and> (\<forall>t fr s'. fetched (snd (handleSend_resume t fr s')) = fetched s')
       \<and> (\<forall>fr reply. getChatCompletion_settle fr = Inr reply \<longrightarrow>
             (\<exists>resp data. fr = Responded resp \<and> ok resp \<and> resp_json resp = Inr data
                \<and> reply = reply_of data))
       \<and> (\<forall>kvs mkvs rest ckvs v.
             map_of kvs (js ''choices'') = Some (JArr (JObj mkvs # rest))
             \<and> map_of mkvs (js ''message'') = Some (JObj ckvs)
             \<and> map_of ckvs (js ''content'') = Some v
             \<longrightarrow> reply_of (JObj kvs) = v)"
proof -
  obtain s1 where h: "handleSend s = (Suspended (Suc (nextId s)), s1)"
      and f: "fetched s1 = fetched s @ [getChatCompletion_request
                (messages s @ [\<lparr>role = User, content = JStr (trim (input_value inp))\<rparr>])]"
    using assms by (simp add: handleSend_Suspended)
  have "\<forall>fr reply. getChatCompletion_settle fr = Inr reply \<longrightarrow>
          (\<exists>resp data. fr = Responded resp \<and> ok resp \<and> resp_json resp = Inr data
             \<and> reply = reply_of data)"
    by (auto simp add: settle_Inr_iff)
  moreover have "\<forall>s'. length (fetched (snd (handleSend s'))) \<le> Suc (length (fetched s'))"
    by (simp add: fetched_handleSend split: completion.splits)
  ultimately show ?thesis
    using h f
    by (simp add: fetched_handleSend_resume getChatCompletion_request_def WORKER_URL_def
          reply_of_path)
qed

theorem send_cycle_request_witness:
  "fst (handleSend (demo_page (js '' hi ''))) = Suspended 1
   \<and> fetched (snd (handleSend (demo_page (js '' hi '')))) =
       [\<lparr>url = js ''https://loreal-worker.mtrigui.workers.dev/'',
         http_method = js ''POST'',
         headers = [(js ''Content-Type'', js ''application/json'')],
         body = \<lparr>model = js ''gpt-4o'',
                  body_messages = [seed, \<lparr>role = User, content = JStr (js ''hi'')\<rparr>]\<rparr>\<rparr>]
   \<and> getChatCompletion_settle (Responded (completion_response (JStr (js ''hello'')))) =
       Inr (JStr (js ''hello''))"
proof -
  let ?inp = "\<lparr>input_value = js '' hi '', focused = False\<rparr>"
  have h1: "userInput (demo_page (js '' hi '')) = Some ?inp"
    by (simp add: demo_page_def init_def)
  have h2: "trim (input_value ?inp) \<noteq> []"
    by (simp add: trim_hi js_hi_nonempty)
  have h3: "sendBtn (demo_page (js '' hi '')) = Some False"
    by (simp add: demo_page_def init_def)
  have h4: "chatContainer (demo_page (js '' hi '')) = Some []"
    by (simp add: demo_page_def init_def)
  have m: "messages (demo_page (js '' hi '')) = [seed]"
      "fetched (demo_page (js '' hi '')) = []"
      "nextId (demo_page (js '' hi '')) = 0"
    by (simp_all add: demo_page_def init_def)
  have r: "getChatCompletion_settle (Responded (completion_response (JStr (js ''hello'')))) =
             Inr (JStr (js ''hello''))"
    by (simp add: settle_completion_response) (simp add: js_def)
  show ?thesis
    using send_cycle_request [OF h1 h2 h3 h4] r
    by (simp add: m trim_hi)
qed

text \<open>
  C5. While a \<open>handleSend\<close> is suspended at its call, the typing indicator is the last
  bubble of the chat window, the button is disabled, and the transcript has grown by the
  user message only. Whatever the call settles to, the resumed \<open>handleSend\<close> returns
  normally with the button enabled, the input field focused and the indicator gone from
  the chat window, and the transcript gains the reply or nothing: the indicator never
  enters it. The same cleanup happens when the call settles in any later state of a page
  that has the three elements.
\<close>

theorem cleanup_on_both_paths:
  assumes "handleSend s = (Suspended t, s1)"
  shows "(\<exists>kids. chatContainer s1 = Some kids \<and> last kids = typing_element t)
       \<and> sendBtn s1 = Some True
       \<and> t \<in> set (pending s1)
       \<and> length (messages s1) = Suc (length (messages s))
       \<and> role (last (messages s1)) = User
       \<and> (\<forall>fr. fst (handleSend_resume t fr s1) = Returned
             \<and> sendBtn (snd (handleSend_resume t fr s1)) = Some False
             \<and> (\<exists>inp. userInput (snd (handleSend_resume t fr s1)) = Some inp \<and> focused inp)
             \<and> (\<exists>kids. chatContainer (snd (handleSend_resume t fr s1)) = Some kids
                    \<and> t \<notin> el_id ` set kids)
             \<and> messages (snd (handleSend_resume t fr s1)) =
                 messages s1 @ (case getChatCompletion_settle fr of
                                  Inr reply \<Rightarrow> [\<lparr>role = Assistant, content = reply\<rparr>]
                                | Inl msg \<Rightarrow> []))
       \<and> (\<forall>fr s' d inp kids.
             sendBtn s' = Some d \<and> userInput s' = Some inp \<and> chatContainer s' = Some kids
             \<longrightarrow>
             fst (handleSend_resume t fr s') = Returned
             \<and> sendBtn (snd (handleSend_resume t fr s')) = Some False
             \<and> userInput (snd (handleSend_resume t fr s')) = Some (inp\<lparr>focused := True\<rparr>)
             \<and> (\<exists>kids'. chatContainer (snd (handleSend_resume t fr s')) = Some kids'
                    \<and> typing_element t \<notin> set kids'))"
proof -
  have general: "fst (handleSend_resume t fr s') = Returned
             \<and> sendBtn (snd (handleSend_resume t fr s')) = Some False
             \<and> userInput (snd (handleSend_resume t fr s')) = Some (inp\<lparr>focused := True\<rparr>)
             \<and> (\<exists>kids'. chatContainer (snd (handleSend_resume t fr s')) = Some kids'
                    \<and> typing_element t \<notin> set kids')"
    if "sendBtn s' = Some d" "userInput s' = Some inp" "chatContainer s' = Some kids"
    for fr s' d inp kids
    using that
    by (auto simp add: fst_handleSend_resume sendBtn_handleSend_resume
          userInput_handleSend_resume chatContainer_handleSend_resume typing_element_bubble)
  have own: "fst (handleSend_resume t fr s') = Returned
             \<and> sendBtn (snd (handleSend_resume t fr s')) = Some False
             \<and> (\<exists>inp. userInput (snd (handleSend_resume t fr s')) = Some inp \<and> focused inp)
             \<and> (\<exists>kids'. chatContainer (snd (handleSend_resume t fr s')) = Some kids'
                    \<and> t \<notin> el_id ` set kids')"
    if "sendBtn s' = Some d" "userInput s' = Some inp" "chatContainer s' = Some kids"
       "nextId s' \<noteq> t"
    for fr s' d inp kids
    using that
    by (auto simp add: fst_handleSend_resume sendBtn_handleSend_resume
          userInput_handleSend_resume chatContainer_handleSend_resume)
  obtain inp d kids where s1: "userInput s1 = Some (inp\<lparr>input_value := []\<rparr>)"
      "sendBtn s1 = Some True"
      "chatContainer s1 = Some (kids @
         [\<lparr>el_id = nextId s,
           classList = [js ''chat-message'', js ''msg'', js ''user'', js ''new''],
           msg_label = js ''User: '',
           msg_text = JStr (trim (input_value inp))\<rparr>,
          typing_element t])"
      "nextId s1 = Suc t"
      "pending s1 = pending s @ [t]"
      "messages s1 = messages s @ [\<lparr>role = User, content = JStr (trim (input_value inp))\<rparr>]"
    using assms by (auto simp add: handleSend_Suspended)
  have first: "(\<exists>kids. chatContainer s1 = Some kids \<and> last kids = typing_element t)
       \<and> sendBtn s1 = Some True
       \<and> t \<in> set (pending s1)
       \<and> length (messages s1) = Suc (length (messages s))
       \<and> role (last (messages s1)) = User"
    by (simp add: s1)
  have "nextId s1 \<noteq> t" by (simp add: s1)
  from own [OF s1(2) s1(1) s1(3) this]
  have mine: "\<forall>fr. fst (handleSend_resume t fr s1) = Returned
             \<and> sendBtn (snd (handleSend_resume t fr s1)) = Some False
             \<and> (\<exists>inp. userInput (snd (handleSend_resume t fr s1)) = Some inp \<and> focused inp)
             \<and> (\<exists>kids. chatContainer (snd (handleSend_resume t fr s1)) = Some kids
                    \<and> t \<notin> el_id ` set kids)
             \<and> messages (snd (handleSend_resume t fr s1)) =
                 messages s1 @ (case getChatCompletion_settle fr of
                                  Inr reply \<Rightarrow> [\<lparr>role = Assistant, content = reply\<rparr>]
                                | Inl msg \<Rightarrow> [])"
    by (simp add: messages_handleSend_resume)
  show ?thesis
    using first mine general by blast
qed

theorem cleanup_on_both_paths_witness:
  "handleSend (demo_page (js ''hi'')) =
     (Suspended 1, snd (handleSend (demo_page (js ''hi''))))
   \<and> chatContainer (snd (handleSend (demo_page (js ''hi'')))) =
       Some [\<lparr>el_id = 0,
               classList = [js ''chat-message'', js ''msg'', js ''user'', js ''new''],
               msg_label = js ''User: '',
               msg_text = JStr (js ''hi'')\<rparr>,
             typing_element 1]
   \<and> sendBtn (snd (handleSend (demo_page (js ''hi'')))) = Some True
   \<and> (\<forall>fr. fst (handleSend_resume 1 fr (snd (handleSend (demo_page (js ''hi''))))) = Returned
         \<and> sendBtn (snd (handleSend_resume 1 fr (snd (handleSend (demo_page (js ''hi'')))))) =
             Some False
         \<and> userInput (snd (handleSend_resume 1 fr (snd (handleSend (demo_page (js ''hi'')))))) =
             Some \<lparr>input_value = [], focused = True\<rparr>
         \<and> (\<exists>kids. chatContainer
                (snd (handleSend_resume 1 fr (snd (handleSend (demo_page (js ''hi'')))))) = Some kids
               \<and> 1 \<notin> el_id ` set kids))"
proof -
  have s: "trim (js ''hi'') \<noteq> []"
    by (simp add: trim_letters js_hi_nonempty)
  have h: "handleSend (demo_page (js ''hi'')) =
             (Suspended 1, snd (handleSend (demo_page (js ''hi''))))"
    by (simp add: handleSend_demo_page [OF s])
  have u: "userInput (snd (handleSend_resume 1 fr (snd (handleSend (demo_page (js ''hi'')))))) =
             Some \<lparr>input_value = [], focused = True\<rparr>" for fr
    by (simp add: userInput_handleSend_resume handleSend_demo_page [OF s])
  have c: "chatContainer (snd (handleSend (demo_page (js ''hi'')))) =
       Some [\<lparr>el_id = 0,
               classList = [js ''chat-message'', js ''msg'', js ''user'', js ''new''],
               msg_label = js ''User: '',
               msg_text = JStr (js ''hi'')\<rparr>,
             typing_element 1]"
    by (simp add: handleSend_demo_page [OF s] trim_letters)
  note T = cleanup_on_both_paths [OF h]
  from T have b: "sendBtn (snd (handleSend (demo_page (js ''hi'')))) = Some True"
    by blast
  from T have d: "fst (handleSend_resume 1 fr (snd (handleSend (demo_page (js ''hi''))))) = Returned
         \<and> sendBtn (snd (handleSend_resume 1 fr (snd (handleSend (demo_page (js ''hi'')))))) =
             Some False
         \<and> (\<exists>kids. chatContainer
                (snd (handleSend_resume 1 fr (snd (handleSend (demo_page (js ''hi'')))))) = Some kids
               \<and> 1 \<notin> el_id ` set kids)" for fr
    by blast
  show ?thesis
    using h c b d u by blast
qed

text \<open>
  C4. The script disables the button while a call is pending, but its \<open>keydown\<close>
  listener calls \<open>handleSend\<close> without looking at the button. After typing \<open>a\<close> and
  pressing Enter one call is pending and the button is disabled; typing \<open>b\<close> and
  pressing Enter before that call settles suspends a second \<open>handleSend\<close> and gives a
  second request to \<open>fetch\<close>: two calls are outstanding at once.
\<close>

theorem enter_while_pending_sends_again:
  "pending (run [Edit (js ''a''), Keydown (js ''Enter'') False] (demo_page [])) = [1]
   \<and> sendBtn (run [Edit (js ''a''), Keydown (js ''Enter'') False] (demo_page [])) = Some True
   \<and> pending (run [Edit (js ''a''), Keydown (js ''Enter'') False,
                     Edit (js ''b''), Keydown (js ''Enter'') False] (demo_page [])) = [1, 3]
   \<and> map (\<lambda>r. body_messages (body r))
         (fetched (run [Edit (js ''a''), Keydown (js ''Enter'') False,
                        Edit (js ''b''), Keydown (js ''Enter'') False] (demo_page []))) =
       [[seed, \<lparr>role = User, content = JStr (js ''a'')\<rparr>],
        [seed, \<lparr>role = User, content = JStr (js ''a'')\<rparr>,
               \<lparr>role = User, content = JStr (js ''b'')\<rparr>]]"
  by (simp add: demo_page_def init_def dispatch_def handleSend_def addMessage_def
        getChatCompletion_fetch_def getChatCompletion_request_def Let_def
        trim_def is_ws_def js_def)

end
